theory Spec2Isabelle
  imports Main "HOL-Library.Word" "HOL-Library.Char_ord" "HOL-Library.List_Lexorder"
begin

unbundle bit_operations_syntax

section \<open>Data model of \<open>meupet/models.py\<close>\<close>

text \<open>
  A \<open>DateTimeField\<close> value is a point in time counted in microseconds (the resolution of
  Python's \<open>datetime\<close>); a nullable column is an \<open>option\<close>. \<open>timedelta(days=d)\<close> is the
  number of microseconds in \<open>d\<close> days.
\<close>

type_synonym datetime = int

definition timedelta_days :: "int \<Rightarrow> int" where
  "timedelta_days d = d * 86400000000"

text \<open>
  \<open>class Kind\<close>: the primary key \<open>id\<close>, the text field \<open>kind\<close> (the name) and the
  \<open>slug\<close>.
\<close>

record Kind =
  Kind_id :: int
  Kind_kind :: string
  Kind_slug :: string

text \<open>
  \<open>class Pet(TimeStampedModel)\<close>. A foreign key is the key of the row it refers to
  (\<open>owner_id\<close>, \<open>city_id\<close>, \<open>kind_id\<close>, the last two nullable); the \<open>CharField\<close>s with
  choices hold the two-letter codes as the source stores them; \<open>created\<close> and
  \<open>modified\<close> come from \<open>TimeStampedModel\<close>.
\<close>

record Pet =
  Pet_id :: int
  owner_id :: int
  name :: string
  description :: string
  city_id :: "int option"
  kind_id :: "int option"
  status :: string
  size_code :: string
  sex :: string
  profile_picture :: string
  published :: bool
  request_sent :: "datetime option"
  request_key :: string
  active :: bool
  slug :: string
  created :: datetime
  modified :: datetime

definition MISSING :: string where "MISSING = ''MI''"
definition FOR_ADOPTION :: string where "FOR_ADOPTION = ''FA''"
definition ADOPTED :: string where "ADOPTED = ''AD''"
definition FOUND :: string where "FOUND = ''FO''"

section \<open>\<open>PetQuerySet\<close>\<close>

text \<open>
  A query set is the list of the rows it denotes, in the order it yields them;
  \<open>filter(...)\<close> keeps the rows that satisfy every keyword condition and leaves the
  order of the others alone. \<open>select_related\<close> only prefetches and is the identity on
  rows.
\<close>

definition actives :: "Pet list \<Rightarrow> Pet list" where
  "actives self = filter (\<lambda>p. active p = True) self"

text \<open>
  \<open>_filter_by_kind\<close>. The builtin \<open>int\<close> is the parameter \<open>int_of\<close>: \<open>Some n\<close> when the
  string converts, \<open>None\<close> when it raises \<open>ValueError\<close>. The lookup \<open>kind__id=n\<close>
  compares the foreign-key column; \<open>kind__slug=s\<close> joins the \<open>Kind\<close> table \<open>kinds\<close> on
  that column and compares the slug of the joined row.
\<close>

definition filter_by_kind ::
  "(string \<Rightarrow> int option) \<Rightarrow> Kind list \<Rightarrow> Pet list \<Rightarrow> string \<Rightarrow> Pet list" where
  "filter_by_kind int_of kinds self kind =
     (case int_of kind of
        Some n \<Rightarrow> filter (\<lambda>p. kind_id p = Some n) (actives self)
      | None \<Rightarrow>
          filter (\<lambda>p. \<exists>k \<in> set kinds. kind_id p = Some (Kind_id k) \<and> Kind_slug k = kind)
            (actives self))"

definition get_lost_or_found ::
  "(string \<Rightarrow> int option) \<Rightarrow> Kind list \<Rightarrow> Pet list \<Rightarrow> string \<Rightarrow> Pet list" where
  "get_lost_or_found int_of kinds self kind =
     filter (\<lambda>p. status p \<in> set [MISSING, FOUND]) (filter_by_kind int_of kinds self kind)"

definition get_for_adoption_adopted ::
  "(string \<Rightarrow> int option) \<Rightarrow> Kind list \<Rightarrow> Pet list \<Rightarrow> string \<Rightarrow> Pet list" where
  "get_for_adoption_adopted int_of kinds self kind =
     filter (\<lambda>p. status p \<in> set [FOR_ADOPTION, ADOPTED])
       (filter_by_kind int_of kinds self kind)"

definition get_unpublished_pets :: "Pet list \<Rightarrow> Pet list" where
  "get_unpublished_pets self = filter (\<lambda>p. published p = False) self"

text \<open>
  \<open>get_staled_pets\<close> and \<open>get_expired_pets\<close> read the clock (\<open>now\<close>) and the setting
  \<open>DAYS_TO_STALE_REGISTER\<close> (\<open>days\<close>). A null \<open>request_sent\<close> never satisfies
  \<open>request_sent__lt\<close>.
\<close>

definition get_staled_pets :: "datetime \<Rightarrow> int \<Rightarrow> Pet list \<Rightarrow> Pet list" where
  "get_staled_pets now days self =
     (let stale_date = now - timedelta_days days
      in filter (\<lambda>p. modified p < stale_date \<and> request_sent p = None \<and>
                      status p \<in> set [MISSING, FOR_ADOPTION]) self)"

definition get_expired_pets :: "datetime \<Rightarrow> int \<Rightarrow> Pet list \<Rightarrow> Pet list" where
  "get_expired_pets now days self =
     (let expire_date = now - timedelta_days days
      in filter (\<lambda>p. case request_sent p of None \<Rightarrow> False | Some t \<Rightarrow> t < expire_date) self)"

section \<open>\<open>KindManager\<close>\<close>

text \<open>
  \<open>count_pets\<close>, called on the \<open>Kind\<close> table \<open>self\<close> with the \<open>Pet\<close> table \<open>pets\<close>.
  \<open>filter(pet__status__in=status, pet__active=True)\<close> joins each kind with the pets
  whose \<open>kind_id\<close> is its \<open>id\<close> and keeps the pairs whose pet meets both conditions;
  \<open>annotate(num_pets=Count('pet'))\<close> groups the pairs by kind and counts the pets of each
  group, so a kind with no such pet has no group; \<open>order_by('kind')\<close> sorts the groups on
  the field \<open>kind\<close> of \<open>Kind\<close>, its name. Text is compared by character codes. A result
  row is the kind together with its \<open>num_pets\<close>.
\<close>

definition joined_pets :: "Pet list \<Rightarrow> string list \<Rightarrow> Kind \<Rightarrow> Pet list" where
  "joined_pets pets status_in k =
     filter (\<lambda>p. kind_id p = Some (Kind_id k) \<and> status p \<in> set status_in \<and> active p = True)
       pets"

definition count_pets :: "Kind list \<Rightarrow> Pet list \<Rightarrow> string list \<Rightarrow> (Kind \<times> nat) list" where
  "count_pets self pets status_in =
     sort_key (\<lambda>row. Kind_kind (fst row))
       (map (\<lambda>k. (k, length (joined_pets pets status_in k)))
          (filter (\<lambda>k. joined_pets pets status_in k \<noteq> []) self))"

definition lost_kinds :: "Kind list \<Rightarrow> Pet list \<Rightarrow> (Kind \<times> nat) list" where
  "lost_kinds self pets = count_pets self pets [MISSING, FOUND]"

definition adoption_kinds :: "Kind list \<Rightarrow> Pet list \<Rightarrow> (Kind \<times> nat) list" where
  "adoption_kinds self pets = count_pets self pets [FOR_ADOPTION, ADOPTED]"

section \<open>The methods of \<open>Pet\<close>\<close>

text \<open>
  A method runs on an instance \<open>self\<close> held in memory and on the \<open>Pet\<close> table, a map from
  primary keys to rows; it returns both as it leaves them. \<open>save()\<close> writes every field
  of the instance to the row under its key. \<open>TimeStampedModel\<close> sets \<open>modified\<close> to the
  current time on the instance before writing, unless the call passes
  \<open>update_modified=False\<close>. The instance modelled is one loaded from the table: its row
  exists, and no earlier \<open>save\<close> has passed \<open>update_modified=False\<close> on it. (On a first
  save the library also sets \<open>created\<close>, and it keeps the last \<open>update_modified\<close> on the
  instance for a later \<open>save()\<close> that passes none.)
\<close>

type_synonym pet_table = "int \<rightharpoonup> Pet"

fun save :: "bool \<Rightarrow> datetime \<Rightarrow> Pet \<times> pet_table \<Rightarrow> Pet \<times> pet_table" where
  "save update_modified now (self, db) =
     (let self' = (if update_modified then self\<lparr>modified := now\<rparr> else self)
      in (self', db(Pet_id self' \<mapsto> self')))"

definition found_or_adopted :: "Pet \<Rightarrow> bool" where
  "found_or_adopted self = (status self = ADOPTED \<or> status self = FOUND)"

fun change_status :: "datetime \<Rightarrow> Pet \<times> pet_table \<Rightarrow> Pet \<times> pet_table" where
  "change_status now (self, db) =
     save True now (self\<lparr>status := (if status self = MISSING then FOUND else ADOPTED)\<rparr>, db)"

definition is_found_or_adopted :: "Pet \<Rightarrow> bool" where
  "is_found_or_adopted self = (status self \<in> set [ADOPTED, FOUND])"

text \<open>
  \<open>request_action\<close> hashes \<open>(crypto.get_random_string(5) + self.name).encode('utf-8')\<close>
  with \<open>hashlib.sha1\<close>. A character of a \<open>string\<close> is a code point below 256, which
  UTF-8 writes as one byte below 128 and as two bytes from 128 on.
\<close>

type_synonym byte = "8 word"
type_synonym word32 = "32 word"

definition utf8_encode :: "string \<Rightarrow> byte list" where
  "utf8_encode s =
     concat (map (\<lambda>c. let n = (of_char c :: nat)
                      in if n < 128 then [of_nat n]
                         else [of_nat (192 + n div 64), of_nat (128 + n mod 64)]) s)"

text \<open>
  SHA-1 (FIPS 180): the message is padded with the byte \<open>0x80\<close>, zeros, and its length in
  bits as 64 bits, to a multiple of 64 bytes; each 64-byte block is read as sixteen
  big-endian words, extended to eighty, and run through eighty rounds.
\<close>

definition be64 :: "64 word \<Rightarrow> byte list" where
  "be64 n = map (\<lambda>i. ucast (drop_bit (8 * i) n)) [7, 6, 5, 4, 3, 2, 1, 0]"

definition sha1_pad :: "byte list \<Rightarrow> byte list" where
  "sha1_pad m =
     m @ [0x80] @ replicate ((119 - length m mod 64) mod 64) 0 @ be64 (8 * of_nat (length m))"

function blocks :: "byte list \<Rightarrow> byte list list" where
  "blocks bs = (if bs = [] then [] else take 64 bs # blocks (drop 64 bs))"
  by pat_completeness auto
termination
  by (relation "measure length") auto

definition be32 :: "byte list \<Rightarrow> word32" where
  "be32 bs = foldl (\<lambda>acc b. push_bit 8 acc OR ucast b) 0 bs"

definition block_words :: "byte list \<Rightarrow> word32 list" where
  "block_words b = map (\<lambda>i. be32 (take 4 (drop (4 * i) b))) [0..<16]"

fun schedule :: "nat \<Rightarrow> word32 list \<Rightarrow> word32 list" where
  "schedule 0 w = w"
| "schedule (Suc n) w =
     (let i = length w
      in schedule n
           (w @ [word_rotl 1 (w ! (i - 3) XOR w ! (i - 8) XOR w ! (i - 14) XOR w ! (i - 16))]))"

type_synonym sha1_state = "word32 \<times> word32 \<times> word32 \<times> word32 \<times> word32"

definition sha1_f :: "nat \<Rightarrow> word32 \<Rightarrow> word32 \<Rightarrow> word32 \<Rightarrow> word32" where
  "sha1_f i b c d =
     (if i < 20 then (b AND c) OR (NOT b AND d)
      else if i < 40 then b XOR c XOR d
      else if i < 60 then (b AND c) OR (b AND d) OR (c AND d)
      else b XOR c XOR d)"

definition sha1_k :: "nat \<Rightarrow> word32" where
  "sha1_k i =
     (if i < 20 then 0x5A827999 else if i < 40 then 0x6ED9EBA1
      else if i < 60 then 0x8F1BBCDC else 0xCA62C1D6)"

fun sha1_round :: "word32 list \<Rightarrow> nat \<Rightarrow> sha1_state \<Rightarrow> sha1_state" where
  "sha1_round w i (a, b, c, d, e) =
     (word_rotl 5 a + sha1_f i b c d + e + sha1_k i + w ! i, a, word_rotl 30 b, c, d)"

fun sha1_add :: "sha1_state \<Rightarrow> sha1_state \<Rightarrow> sha1_state" where
  "sha1_add (h0, h1, h2, h3, h4) (a, b, c, d, e) = (h0 + a, h1 + b, h2 + c, h3 + d, h4 + e)"

definition sha1_compress :: "byte list \<Rightarrow> sha1_state \<Rightarrow> sha1_state" where
  "sha1_compress blk h =
     sha1_add h (fold (sha1_round (schedule 64 (block_words blk))) [0..<80] h)"

definition sha1 :: "byte list \<Rightarrow> sha1_state" where
  "sha1 m = fold sha1_compress (blocks (sha1_pad m))
              (0x67452301, 0xEFCDAB89, 0x98BADCFE, 0x10325476, 0xC3D2E1F0)"

definition hexdigits :: string where
  "hexdigits = ''0123456789abcdef''"

definition hex32 :: "word32 \<Rightarrow> string" where
  "hex32 w = map (\<lambda>i. hexdigits ! unat (drop_bit (4 * i) w AND 0xF))
               [7, 6, 5, 4, 3, 2, 1, 0]"

fun hexdigest :: "sha1_state \<Rightarrow> string" where
  "hexdigest (h0, h1, h2, h3, h4) = concat (map hex32 [h0, h1, h2, h3, h4])"

text \<open>
  The random string drawn by \<open>crypto.get_random_string(5)\<close> is the parameter \<open>seed\<close>; the
  collaborators \<open>services.send_request_action_email\<close> and
  \<open>services.send_deactivate_email\<close> are parameters that take the instance and answer
  whether the mail went out; \<open>now\<close> is the reading of the clock.
\<close>

fun request_action ::
  "string \<Rightarrow> (Pet \<Rightarrow> bool) \<Rightarrow> datetime \<Rightarrow> Pet \<times> pet_table \<Rightarrow> Pet \<times> pet_table" where
  "request_action seed send_request_action_email now (self, db) =
     (let hash_input = utf8_encode (seed @ name self);
          self1 = self\<lparr>request_key := hexdigest (sha1 hash_input)\<rparr>
      in if \<not> send_request_action_email self1 then (self1, db)
         else save False now (self1\<lparr>request_sent := Some now\<rparr>, db))"

fun activate :: "datetime \<Rightarrow> Pet \<times> pet_table \<Rightarrow> Pet \<times> pet_table" where
  "activate now (self, db) =
     save True now (self\<lparr>request_sent := None, request_key := [], active := True\<rparr>, db)"

fun deactivate :: "(Pet \<Rightarrow> bool) \<Rightarrow> datetime \<Rightarrow> Pet \<times> pet_table \<Rightarrow> Pet \<times> pet_table" where
  "deactivate send_deactivate_email now (self, db) =
     (if \<not> send_deactivate_email self then (self, db)
      else save False now (self\<lparr>active := False\<rparr>, db))"

section \<open>Example data\<close>

text \<open>
  A stored pet, three kinds and six pets of these kinds, used where a statement is
  checked on concrete rows, and a reader of decimal numerals (an optional minus sign
  before ASCII digits) that stands for \<open>int\<close> on the identifiers used there; \<open>int\<close>
  itself also accepts a plus sign, surrounding white space and other digits.
\<close>

definition rex :: Pet where
  "rex = \<lparr>Pet_id = 1, owner_id = 1, name = ''Rex'', description = ''brown dog'',
          city_id = None, kind_id = Some 7, status = ''MI'', size_code = ''MD'', sex = ''MA'',
          profile_picture = ''pet_profiles/rex.jpg'', published = False,
          request_sent = None, request_key = [], active = True, slug = ''rex'',
          created = 0, modified = 0\<rparr>"

definition example_kinds :: "Kind list" where
  "example_kinds =
     [\<lparr>Kind_id = 1, Kind_kind = ''bee'', Kind_slug = ''bee''\<rparr>,
      \<lparr>Kind_id = 2, Kind_kind = ''Zebra'', Kind_slug = ''zebra''\<rparr>,
      \<lparr>Kind_id = 3, Kind_kind = ''Ant'', Kind_slug = ''ant''\<rparr>]"

definition example_pets :: "Pet list" where
  "example_pets =
     [rex\<lparr>kind_id := Some 1\<rparr>, rex\<lparr>Pet_id := 2, kind_id := Some 2\<rparr>,
      rex\<lparr>Pet_id := 3, kind_id := Some 3, status := FOUND\<rparr>,
      rex\<lparr>Pet_id := 4, kind_id := Some 3\<rparr>,
      rex\<lparr>Pet_id := 5, kind_id := Some 3, active := False\<rparr>,
      rex\<lparr>Pet_id := 6, kind_id := Some 1, status := ADOPTED\<rparr>]"

definition digit_value :: "char \<Rightarrow> int option" where
  "digit_value c = map_of (zip ''0123456789'' [0, 1, 2, 3, 4, 5, 6, 7, 8, 9]) c"

fun digits_value :: "int \<Rightarrow> string \<Rightarrow> int option" where
  "digits_value acc [] = Some acc"
| "digits_value acc (c # cs) =
     (case digit_value c of None \<Rightarrow> None | Some d \<Rightarrow> digits_value (10 * acc + d) cs)"

definition int_decimal :: "string \<Rightarrow> int option" where
  "int_decimal s =
     (if s = [] \<or> s = ''-'' then None
      else if hd s = CHR ''-'' then map_option uminus (digits_value 0 (tl s))
      else digits_value 0 s)"

section \<open>Properties\<close>

lemma status_codes_distinct:
  "MISSING \<noteq> FOR_ADOPTION" "MISSING \<noteq> ADOPTED" "MISSING \<noteq> FOUND"
  "FOR_ADOPTION \<noteq> ADOPTED" "FOR_ADOPTION \<noteq> FOUND" "ADOPTED \<noteq> FOUND"
  by (simp_all add: MISSING_def FOR_ADOPTION_def ADOPTED_def FOUND_def)

lemma filter_by_kind_active:
  "p \<in> set (filter_by_kind int_of kinds self kind) \<Longrightarrow> active p = True \<and> p \<in> set self"
  by (auto simp: filter_by_kind_def actives_def split: option.splits)

lemma nibble_less: "unat (x AND 0xF) < 16" for x :: word32
proof -
  have "x AND mask 4 < 2 ^ 4" by (rule and_mask_less_size) (simp add: word_size)
  then have "unat (x AND mask 4) < unat (2 ^ 4 :: word32)" by (simp only: word_less_nat_alt)
  then show ?thesis by (simp add: mask_eq_exp_minus_1)
qed

lemma length_hex32: "length (hex32 w) = 8"
  by (simp add: hex32_def)

lemma hex32_chars: "set (hex32 w) \<subseteq> set hexdigits"
proof -
  have len: "length hexdigits = 16" by (simp add: hexdigits_def)
  have h: "hexdigits ! unat (x AND 0xF) \<in> set hexdigits" for x :: word32
    by (rule nth_mem) (simp add: len nibble_less)
  show ?thesis unfolding hex32_def
    by (simp only: set_map) (rule image_subsetI, rule h)
qed

lemma length_hexdigest: "length (hexdigest h) = 40"
  by (cases h) (simp add: length_hex32)

lemma hexdigest_chars: "set (hexdigest h) \<subseteq> set hexdigits"
  using hex32_chars by (cases h) auto

lemma schedule_add: "schedule (m + n) w = schedule n (schedule m w)"
  by (induction m arbitrary: w) (simp_all add: Let_def)

lemma schedule_by_eights:
  "schedule 64 w =
     schedule 8 (schedule 8 (schedule 8 (schedule 8
       (schedule 8 (schedule 8 (schedule 8 (schedule 8 w)))))))"
proof -
  have "schedule (8 + 8 + 8 + 8 + 8 + 8 + 8 + 8) w =
     schedule 8 (schedule 8 (schedule 8 (schedule 8
       (schedule 8 (schedule 8 (schedule 8 (schedule 8 w)))))))"
    by (simp only: schedule_add)
  then show ?thesis by simp
qed

text \<open>
  Two digests computed block by block: the padded message, its sixteen words, the
  schedule in eight steps of eight words, the eighty rounds, and the sum with the
  initial state.
\<close>

lemma sha1_aB3xYRex:
  "hexdigest (sha1 (utf8_encode ''aB3xYRex'')) = ''4643971531ee1140e0e1a5b1d59d9ae99c977d49''"
proof -
  let ?B = "[97, 66, 51, 120, 89, 82, 101, 120, 128, 0, 0, 0, 0, 0, 0, 0,
            0, 0, 0, 0, 0, 0, 0, 0, 0, 0, 0, 0, 0, 0, 0, 0,
            0, 0, 0, 0, 0, 0, 0, 0, 0, 0, 0, 0, 0, 0, 0, 0,
            0, 0, 0, 0, 0, 0, 0, 0, 0, 0, 0, 0, 0, 0, 0, 64] :: byte list"
  let ?X0 = "[0x61423378, 0x59526578, 0x80000000, 0x00000000,
             0x00000000, 0x00000000, 0x00000000, 0x00000000,
             0x00000000, 0x00000000, 0x00000000, 0x00000000,
             0x00000000, 0x00000000, 0x00000000, 0x00000040] :: word32 list"
  let ?X1 = "[0xC28466F1, 0xB2A4CAF0, 0x00000081, 0x8508CDE3,
             0x654995E1, 0x00000102, 0x0A119BC7, 0xCA932B42] :: word32 list"
  let ?X2 = "[0x8508CFE7, 0x716AA26F, 0x95265787, 0x00000408,
             0x28466F1C, 0x2A4CAD8B, 0x912BF27D, 0xA0E31DDC] :: word32 list"
  let ?X3 = "[0xDB800838, 0xAFDAAE03, 0xA119BE76, 0xBD1181A2,
             0xD1899E73, 0x838C737A, 0x46464FFF, 0x95261505] :: word32 list"
  let ?X4 = "[0x9045C644, 0x31EC8F37, 0x12BF27D1, 0x0E31DCCA,
             0xB211184A, 0x3739C9F8, 0x05B8D2E0, 0x501D7D20] :: word32 list"
  let ?X5 = "[0xBBCB73E5, 0x4D3EE4EC, 0x6464F5E8, 0x16CEBBEF,
             0xD1C05A54, 0x8BEEB4DE, 0x8AEBC169, 0x4A2F7A8C] :: word32 list"
  let ?X6 = "[0x65BE4D5D, 0xF010ECF1, 0x1DCB61FF, 0x94F1C700,
             0x2CF2F81F, 0xE202C3F3, 0x40D34ED9, 0xF7FC36BE] :: word32 list"
  let ?X7 = "[0xB0261146, 0xD667FA57, 0xBF27F1FA, 0x73EFB2EF,
             0x437D32EB, 0x39C9F8B7, 0xB8D2E005, 0x1D7D2450] :: word32 list"
  let ?X8 = "[0xE3358AA7, 0x14A86346, 0x26C69895, 0xCC527977,
             0x77E9CED6, 0x15E32ADE, 0x08EB8DDB, 0x961E4CDE] :: word32 list"
  let ?h = "(0x67452301, 0xEFCDAB89, 0x98BADCFE, 0x10325476, 0xC3D2E1F0) :: sha1_state"
  let ?s = "(0xDEFE7414, 0x422065B7, 0x4826C8B3, 0xC56B4673, 0xD8C49B59) :: sha1_state"
  have blk: "blocks (sha1_pad (utf8_encode ''aB3xYRex'')) = [?B]"
    by code_simp
  have bw: "block_words ?B = ?X0"
    by code_simp
  have s1: "schedule 8 ?X0 = ?X0 @ ?X1"
    by code_simp
  have s2: "schedule 8 (?X0 @ ?X1) = ?X0 @ ?X1 @ ?X2"
    by code_simp
  have s3: "schedule 8 (?X0 @ ?X1 @ ?X2) = ?X0 @ ?X1 @ ?X2 @ ?X3"
    by code_simp
  have s4: "schedule 8 (?X0 @ ?X1 @ ?X2 @ ?X3) = ?X0 @ ?X1 @ ?X2 @ ?X3 @ ?X4"
    by code_simp
  have s5: "schedule 8 (?X0 @ ?X1 @ ?X2 @ ?X3 @ ?X4) = ?X0 @ ?X1 @ ?X2 @ ?X3 @ ?X4 @ ?X5"
    by code_simp
  have s6: "schedule 8 (?X0 @ ?X1 @ ?X2 @ ?X3 @ ?X4 @ ?X5) = ?X0 @ ?X1 @ ?X2 @ ?X3 @ ?X4 @ ?X5 @ ?X6"
    by code_simp
  have s7: "schedule 8 (?X0 @ ?X1 @ ?X2 @ ?X3 @ ?X4 @ ?X5 @ ?X6) = ?X0 @ ?X1 @ ?X2 @ ?X3 @ ?X4 @ ?X5 @ ?X6 @ ?X7"
    by code_simp
  have s8: "schedule 8 (?X0 @ ?X1 @ ?X2 @ ?X3 @ ?X4 @ ?X5 @ ?X6 @ ?X7) = ?X0 @ ?X1 @ ?X2 @ ?X3 @ ?X4 @ ?X5 @ ?X6 @ ?X7 @ ?X8"
    by code_simp
  have sch: "schedule 64 ?X0 = ?X0 @ ?X1 @ ?X2 @ ?X3 @ ?X4 @ ?X5 @ ?X6 @ ?X7 @ ?X8"
    by (simp only: schedule_by_eights s1 s2 s3 s4 s5 s6 s7 s8)
  have rnd: "fold (sha1_round (?X0 @ ?X1 @ ?X2 @ ?X3 @ ?X4 @ ?X5 @ ?X6 @ ?X7 @ ?X8)) [0..<80] ?h = ?s"
    by code_simp
  have fin: "hexdigest (sha1_add ?h ?s) = ''4643971531ee1140e0e1a5b1d59d9ae99c977d49''"
    by code_simp
  have "sha1 (utf8_encode ''aB3xYRex'') = sha1_compress ?B ?h"
    by (simp only: sha1_def blk fold_simps comp_apply id_apply)
  also have "\<dots> = sha1_add ?h ?s"
    by (simp only: sha1_compress_def bw sch rnd)
  finally show ?thesis
    by (simp only: fin)
qed

lemma sha1_q7Zk2Rex:
  "hexdigest (sha1 (utf8_encode ''q7Zk2Rex'')) = ''0b8f2270963f4310645a76a40a28b2be6ec8ec3f''"
proof -
  let ?B = "[113, 55, 90, 107, 50, 82, 101, 120, 128, 0, 0, 0, 0, 0, 0, 0,
            0, 0, 0, 0, 0, 0, 0, 0, 0, 0, 0, 0, 0, 0, 0, 0,
            0, 0, 0, 0, 0, 0, 0, 0, 0, 0, 0, 0, 0, 0, 0, 0,
            0, 0, 0, 0, 0, 0, 0, 0, 0, 0, 0, 0, 0, 0, 0, 64] :: byte list"
  let ?X0 = "[0x71375A6B, 0x32526578, 0x80000000, 0x00000000,
             0x00000000, 0x00000000, 0x00000000, 0x00000000,
             0x00000000, 0x00000000, 0x00000000, 0x00000000,
             0x00000000, 0x00000000, 0x00000000, 0x00000040] :: word32 list"
  let ?X1 = "[0xE26EB4D7, 0x64A4CAF0, 0x00000081, 0xC4DD69AF,
             0xC94995E0, 0x00000102, 0x89BAD35F, 0x92932B41] :: word32 list"
  let ?X2 = "[0xC4DD6BAB, 0xDA3C335F, 0x25265781, 0x00000408,
             0x26EB4D7E, 0x4A4CAD86, 0xD7A8C700, 0xA1B9591F] :: word32 list"
  let ?X3 = "[0xD9FEE4F6, 0x5BDAAE01, 0x9BAD37FE, 0x3A4710A6,
             0x7B854B80, 0x86E56076, 0x4110DEA5, 0x25261503] :: word32 list"
  let ?X4 = "[0x7DC17155, 0x81EC8FE7, 0x7A8C7005, 0x1B9590FA,
             0x16549C32, 0x2F39C9D4, 0xA9A6DB52, 0x9222FC5F] :: word32 list"
  let ?X5 = "[0x2156D712, 0x93AFD424, 0x110DE048, 0x0CC26E71,
             0x7EDDBA67, 0x3BEEB9D3, 0x336A35A7, 0x906BB9B8] :: word32 list"
  let ?X6 = "[0x3BEADF22, 0x7579FD3C, 0xDB7D6B8F, 0x0709D0FA,
             0x68AC0077, 0xBB11CFAE, 0x7927D23B, 0xF2952369] :: word32 list"
  let ?X7 = "[0x61404FAD, 0x26672AA5, 0x8C702592, 0xA2CA91EA,
             0x06F94A24, 0x39C9D4AF, 0xA6DB52A9, 0x22FC5B92] :: word32 list"
  let ?X8 = "[0x703C5F5F, 0xE598AB95, 0x3ABA2BF0, 0xDDDDA3C2,
             0xE5D467FB, 0x95EE2730, 0xC6C2D9FA, 0x27B46B4A] :: word32 list"
  let ?h = "(0x67452301, 0xEFCDAB89, 0x98BADCFE, 0x10325476, 0xC3D2E1F0) :: sha1_state"
  let ?s = "(0xA449FF6F, 0xA6719787, 0xCB9F99A6, 0xF9F65E48, 0xAAF60A4F) :: sha1_state"
  have blk: "blocks (sha1_pad (utf8_encode ''q7Zk2Rex'')) = [?B]"
    by code_simp
  have bw: "block_words ?B = ?X0"
    by code_simp
  have s1: "schedule 8 ?X0 = ?X0 @ ?X1"
    by code_simp
  have s2: "schedule 8 (?X0 @ ?X1) = ?X0 @ ?X1 @ ?X2"
    by code_simp
  have s3: "schedule 8 (?X0 @ ?X1 @ ?X2) = ?X0 @ ?X1 @ ?X2 @ ?X3"
    by code_simp
  have s4: "schedule 8 (?X0 @ ?X1 @ ?X2 @ ?X3) = ?X0 @ ?X1 @ ?X2 @ ?X3 @ ?X4"
    by code_simp
  have s5: "schedule 8 (?X0 @ ?X1 @ ?X2 @ ?X3 @ ?X4) = ?X0 @ ?X1 @ ?X2 @ ?X3 @ ?X4 @ ?X5"
    by code_simp
  have s6: "schedule 8 (?X0 @ ?X1 @ ?X2 @ ?X3 @ ?X4 @ ?X5) = ?X0 @ ?X1 @ ?X2 @ ?X3 @ ?X4 @ ?X5 @ ?X6"
    by code_simp
  have s7: "schedule 8 (?X0 @ ?X1 @ ?X2 @ ?X3 @ ?X4 @ ?X5 @ ?X6) = ?X0 @ ?X1 @ ?X2 @ ?X3 @ ?X4 @ ?X5 @ ?X6 @ ?X7"
    by code_simp
  have s8: "schedule 8 (?X0 @ ?X1 @ ?X2 @ ?X3 @ ?X4 @ ?X5 @ ?X6 @ ?X7) = ?X0 @ ?X1 @ ?X2 @ ?X3 @ ?X4 @ ?X5 @ ?X6 @ ?X7 @ ?X8"
    by code_simp
  have sch: "schedule 64 ?X0 = ?X0 @ ?X1 @ ?X2 @ ?X3 @ ?X4 @ ?X5 @ ?X6 @ ?X7 @ ?X8"
    by (simp only: schedule_by_eights s1 s2 s3 s4 s5 s6 s7 s8)
  have rnd: "fold (sha1_round (?X0 @ ?X1 @ ?X2 @ ?X3 @ ?X4 @ ?X5 @ ?X6 @ ?X7 @ ?X8)) [0..<80] ?h = ?s"
    by code_simp
  have fin: "hexdigest (sha1_add ?h ?s) = ''0b8f2270963f4310645a76a40a28b2be6ec8ec3f''"
    by code_simp
  have "sha1 (utf8_encode ''q7Zk2Rex'') = sha1_compress ?B ?h"
    by (simp only: sha1_def blk fold_simps comp_apply id_apply)
  also have "\<dots> = sha1_add ?h ?s"
    by (simp only: sha1_compress_def bw sch rnd)
  finally show ?thesis
    by (simp only: fin)
qed

subsection \<open>The two predicates on the status\<close>

text \<open>
  Claim C10. For every pet, \<open>found_or_adopted\<close> and \<open>is_found_or_adopted\<close> return the same
  boolean, and each is true exactly when the status is \<open>ADOPTED\<close> or \<open>FOUND\<close>.
\<close>

theorem found_or_adopted_agree:
  "found_or_adopted self = is_found_or_adopted self \<and>
   (found_or_adopted self \<longleftrightarrow> status self = ADOPTED \<or> status self = FOUND) \<and>
   (is_found_or_adopted self \<longleftrightarrow> status self = ADOPTED \<or> status self = FOUND)"
  by (simp add: found_or_adopted_def is_found_or_adopted_def)

text \<open>On the example pet, which is missing, both are false; once found, both are true.\<close>

theorem found_or_adopted_agree_witness:
  "found_or_adopted rex = False \<and> is_found_or_adopted rex = False \<and>
   found_or_adopted (rex\<lparr>status := FOUND\<rparr>) = True \<and>
   is_found_or_adopted (rex\<lparr>status := FOUND\<rparr>) = True"
  using found_or_adopted_agree [of rex] found_or_adopted_agree [of "rex\<lparr>status := FOUND\<rparr>"]
  by (simp add: rex_def ADOPTED_def FOUND_def)

subsection \<open>\<open>change_status\<close>\<close>

text \<open>
  Claim C5. \<open>change_status\<close> sets the status to \<open>FOUND\<close> when it was \<open>MISSING\<close> and to
  \<open>ADOPTED\<close> in every other case, and saves the instance; the new status is never
  \<open>MISSING\<close>, and from \<open>MISSING\<close> one call gives \<open>FOUND\<close> and a second call gives
  \<open>ADOPTED\<close>.
\<close>

theorem change_status_steps:
  "status (fst (change_status now (self, db))) =
     (if status self = MISSING then FOUND else ADOPTED) \<and>
   status (fst (change_status now (self, db))) \<noteq> MISSING \<and>
   snd (change_status now (self, db)) (Pet_id self) = Some (fst (change_status now (self, db))) \<and>
   (status self = MISSING \<longrightarrow>
      status (fst (change_status now (self, db))) = FOUND \<and>
      status (fst (change_status now' (change_status now (self, db)))) = ADOPTED)"
  using status_codes_distinct by (simp add: Let_def)

text \<open>The example pet goes from missing to found to adopted; a pet for adoption is adopted.\<close>

theorem change_status_steps_witness:
  "status rex = MISSING \<and>
   status (fst (change_status 5 (rex, Map.empty))) = FOUND \<and>
   status (fst (change_status 9 (change_status 5 (rex, Map.empty)))) = ADOPTED \<and>
   status (fst (change_status 5 (rex\<lparr>status := FOR_ADOPTION\<rparr>, Map.empty))) = ADOPTED"
  using change_status_steps [of 5 rex Map.empty 9]
    change_status_steps [of 5 "rex\<lparr>status := FOR_ADOPTION\<rparr>" Map.empty 9]
    status_codes_distinct
  by (simp add: rex_def MISSING_def Let_def)

subsection \<open>\<open>deactivate\<close>\<close>

text \<open>
  Claim C3. When \<open>send_deactivate_email\<close> reports failure, \<open>deactivate\<close> returns the
  instance and the table as they were. When it reports success, the instance differs
  from the old one in \<open>active\<close> alone, which is false, so \<open>modified\<close> is what it was, and
  that instance is the row stored under the pet's key.
\<close>

theorem deactivate_gated:
  "(\<not> send_deactivate_email self \<longrightarrow>
      deactivate send_deactivate_email now (self, db) = (self, db)) \<and>
   (send_deactivate_email self \<longrightarrow>
      fst (deactivate send_deactivate_email now (self, db)) = self\<lparr>active := False\<rparr> \<and>
      active (fst (deactivate send_deactivate_email now (self, db))) = False \<and>
      modified (fst (deactivate send_deactivate_email now (self, db))) = modified self \<and>
      snd (deactivate send_deactivate_email now (self, db)) =
        db(Pet_id self \<mapsto> self\<lparr>active := False\<rparr>))"
  by (simp add: Let_def)

text \<open>Both outcomes on the example pet, stored under key 1, with the clock at 9.\<close>

theorem deactivate_gated_witness:
  "deactivate (\<lambda>p. False) 9 (rex, [1 \<mapsto> rex]) = (rex, [1 \<mapsto> rex]) \<and>
   active (fst (deactivate (\<lambda>p. True) 9 (rex, [1 \<mapsto> rex]))) = False \<and>
   modified (fst (deactivate (\<lambda>p. True) 9 (rex, [1 \<mapsto> rex]))) = modified rex \<and>
   snd (deactivate (\<lambda>p. True) 9 (rex, [1 \<mapsto> rex])) 1 = Some (rex\<lparr>active := False\<rparr>)"
  using deactivate_gated [of "\<lambda>p. False" rex 9 "[1 \<mapsto> rex]"]
    deactivate_gated [of "\<lambda>p. True" rex 9 "[1 \<mapsto> rex]"]
  by (simp add: rex_def Let_def)

subsection \<open>\<open>actives\<close> and \<open>get_unpublished_pets\<close>\<close>

text \<open>
  Claim C8. Every pet returned by \<open>actives\<close> is active. \<open>get_unpublished_pets\<close> returns
  exactly the pets of the set with \<open>published = False\<close>, and there is a set on which its
  result holds an active and an inactive pet.
\<close>

theorem actives_and_unpublished:
  "(\<forall>p \<in> set (actives self). active p = True) \<and>
   get_unpublished_pets self = filter (\<lambda>p. published p = False) self \<and>
   set (get_unpublished_pets self) = {p \<in> set self. published p = False} \<and>
   (\<exists>pets p q. p \<in> set (get_unpublished_pets pets) \<and> q \<in> set (get_unpublished_pets pets) \<and>
      active p = True \<and> active q = False)"
proof -
  have "rex \<in> set (get_unpublished_pets [rex, rex\<lparr>active := False\<rparr>]) \<and>
        rex\<lparr>active := False\<rparr> \<in> set (get_unpublished_pets [rex, rex\<lparr>active := False\<rparr>]) \<and>
        active rex = True \<and> active (rex\<lparr>active := False\<rparr>) = False"
    by (simp add: get_unpublished_pets_def rex_def)
  then have "\<exists>pets p q. p \<in> set (get_unpublished_pets pets) \<and>
      q \<in> set (get_unpublished_pets pets) \<and> active p = True \<and> active q = False"
    by blast
  then show ?thesis
    by (simp add: actives_def get_unpublished_pets_def)
qed

text \<open>
  Three copies of the example pet, one inactive and one published: \<open>actives\<close> drops the
  inactive one, \<open>get_unpublished_pets\<close> drops the published one and keeps the inactive.
\<close>

theorem actives_and_unpublished_witness:
  "actives [rex, rex\<lparr>active := False\<rparr>, rex\<lparr>published := True\<rparr>] =
     [rex, rex\<lparr>published := True\<rparr>] \<and>
   get_unpublished_pets [rex, rex\<lparr>active := False\<rparr>, rex\<lparr>published := True\<rparr>] =
     [rex, rex\<lparr>active := False\<rparr>]"
  using actives_and_unpublished [of "[rex, rex\<lparr>active := False\<rparr>, rex\<lparr>published := True\<rparr>]"]
  by (simp add: actives_def rex_def)

subsection \<open>\<open>get_lost_or_found\<close> and \<open>get_for_adoption_adopted\<close>\<close>

text \<open>
  Claim C7. For every pet set and kind identifier, each pet returned by
  \<open>get_lost_or_found\<close> has status \<open>MISSING\<close> or \<open>FOUND\<close>, each pet returned by
  \<open>get_for_adoption_adopted\<close> has status \<open>FOR_ADOPTION\<close> or \<open>ADOPTED\<close>, and no pet is in
  both results.
\<close>

theorem tracks_disjoint:
  "(\<forall>p \<in> set (get_lost_or_found int_of kinds self kind). status p = MISSING \<or> status p = FOUND) \<and>
   (\<forall>p \<in> set (get_for_adoption_adopted int_of kinds self kind).
      status p = FOR_ADOPTION \<or> status p = ADOPTED) \<and>
   set (get_lost_or_found int_of kinds self kind) \<inter>
     set (get_for_adoption_adopted int_of kinds self kind) = {}"
  using status_codes_distinct
  by (auto simp: get_lost_or_found_def get_for_adoption_adopted_def)

text \<open>Four pets of kind 7, one of each status, asked for by the identifier \<open>7\<close>.\<close>

theorem tracks_disjoint_witness:
  "get_lost_or_found int_decimal example_kinds
     [rex, rex\<lparr>Pet_id := 2, status := FOR_ADOPTION\<rparr>, rex\<lparr>Pet_id := 3, status := FOUND\<rparr>,
      rex\<lparr>Pet_id := 4, status := ADOPTED\<rparr>] ''7'' =
     [rex, rex\<lparr>Pet_id := 3, status := FOUND\<rparr>] \<and>
   get_for_adoption_adopted int_decimal example_kinds
     [rex, rex\<lparr>Pet_id := 2, status := FOR_ADOPTION\<rparr>, rex\<lparr>Pet_id := 3, status := FOUND\<rparr>,
      rex\<lparr>Pet_id := 4, status := ADOPTED\<rparr>] ''7'' =
     [rex\<lparr>Pet_id := 2, status := FOR_ADOPTION\<rparr>, rex\<lparr>Pet_id := 4, status := ADOPTED\<rparr>]"
  using tracks_disjoint [of int_decimal example_kinds
     "[rex, rex\<lparr>Pet_id := 2, status := FOR_ADOPTION\<rparr>, rex\<lparr>Pet_id := 3, status := FOUND\<rparr>,
       rex\<lparr>Pet_id := 4, status := ADOPTED\<rparr>]" "''7''"]
  by (simp add: get_lost_or_found_def get_for_adoption_adopted_def filter_by_kind_def
      actives_def int_decimal_def digit_value_def rex_def
      MISSING_def FOUND_def FOR_ADOPTION_def ADOPTED_def)

subsection \<open>\<open>get_staled_pets\<close>\<close>

text \<open>
  Claim C1, as stated: the result of \<open>get_staled_pets\<close> holds no inactive pet. It fails:
  with 30 days to stale and the clock at day 31, an inactive missing pet last modified
  at day 0, with no \<open>request_sent\<close>, is returned.
\<close>

theorem get_staled_pets_inactive_counterexample:
  "active (rex\<lparr>active := False\<rparr>) = False \<and>
   get_staled_pets (timedelta_days 31) 30 [rex\<lparr>active := False\<rparr>] = [rex\<lparr>active := False\<rparr>]"
  by (simp add: get_staled_pets_def timedelta_days_def rex_def MISSING_def)

text \<open>
  Claim C1, amended. \<open>get_staled_pets\<close> returns exactly the pets of the set whose status
  is \<open>MISSING\<close> or \<open>FOR_ADOPTION\<close>, whose \<open>request_sent\<close> is null and whose \<open>modified\<close> is
  before now minus the configured days. It does not read \<open>active\<close>: setting the flag of
  every pet to any value changes nothing else in the result.
\<close>

theorem get_staled_pets_exact:
  "get_staled_pets now days self =
     filter (\<lambda>p. (status p = MISSING \<or> status p = FOR_ADOPTION) \<and> request_sent p = None \<and>
                 modified p < now - timedelta_days days) self \<and>
   set (get_staled_pets now days self) =
     {p \<in> set self. (status p = MISSING \<or> status p = FOR_ADOPTION) \<and> request_sent p = None \<and>
        modified p < now - timedelta_days days} \<and>
   get_staled_pets now days (map (\<lambda>p. p\<lparr>active := b\<rparr>) self) =
     map (\<lambda>p. p\<lparr>active := b\<rparr>) (get_staled_pets now days self)"
proof -
  have a: "get_staled_pets now days self =
     filter (\<lambda>p. (status p = MISSING \<or> status p = FOR_ADOPTION) \<and> request_sent p = None \<and>
                 modified p < now - timedelta_days days) self"
    unfolding get_staled_pets_def Let_def by (rule filter_cong) auto
  have b: "get_staled_pets now days (map (\<lambda>p. p\<lparr>active := b\<rparr>) self) =
     map (\<lambda>p. p\<lparr>active := b\<rparr>) (get_staled_pets now days self)"
    by (simp add: get_staled_pets_def Let_def filter_map comp_def)
  from a have c: "set (get_staled_pets now days self) =
     {p \<in> set self. (status p = MISSING \<or> status p = FOR_ADOPTION) \<and> request_sent p = None \<and>
        modified p < now - timedelta_days days}"
    by simp
  from a b c show ?thesis by blast
qed

text \<open>
  With 30 days and the clock at day 31, of five pets last modified at day 0 the missing
  one and the inactive missing one are returned; the adopted one, the one with a request
  sent and the one modified at day 2 are not.
\<close>

theorem get_staled_pets_exact_witness:
  "get_staled_pets (timedelta_days 31) 30
     [rex, rex\<lparr>Pet_id := 2, status := ADOPTED\<rparr>, rex\<lparr>Pet_id := 3, active := False\<rparr>,
      rex\<lparr>Pet_id := 4, request_sent := Some 5\<rparr>, rex\<lparr>Pet_id := 5, modified := timedelta_days 2\<rparr>] =
     [rex, rex\<lparr>Pet_id := 3, active := False\<rparr>]"
  using get_staled_pets_exact [of "timedelta_days 31" 30
     "[rex, rex\<lparr>Pet_id := 2, status := ADOPTED\<rparr>, rex\<lparr>Pet_id := 3, active := False\<rparr>,
      rex\<lparr>Pet_id := 4, request_sent := Some 5\<rparr>, rex\<lparr>Pet_id := 5, modified := timedelta_days 2\<rparr>]"]
  by (simp add: timedelta_days_def rex_def MISSING_def FOR_ADOPTION_def ADOPTED_def)

subsection \<open>\<open>_filter_by_kind\<close>\<close>

text \<open>
  Claim C2. When the identifier converts to an integer \<open>n\<close>, the result is the active
  pets whose kind has the id \<open>n\<close>, and it does not depend on the \<open>Kind\<close> table, hence on
  no slug. When it does not convert, the result is the active pets whose kind has the
  identifier as its slug. Either way every pet of the result is active.
\<close>

theorem filter_by_kind_dispatch:
  "(\<forall>n. int_of kind = Some n \<longrightarrow>
      filter_by_kind int_of kinds self kind =
        filter (\<lambda>p. active p = True \<and> kind_id p = Some n) self \<and>
      filter_by_kind int_of kinds self kind = filter_by_kind int_of [] self kind) \<and>
   (int_of kind = None \<longrightarrow>
      filter_by_kind int_of kinds self kind =
        filter (\<lambda>p. active p = True \<and>
                    (\<exists>k \<in> set kinds. kind_id p = Some (Kind_id k) \<and> Kind_slug k = kind)) self) \<and>
   (\<forall>p \<in> set (filter_by_kind int_of kinds self kind). active p = True)"
proof -
  have "filter_by_kind int_of kinds self kind =
        filter (\<lambda>p. active p = True \<and> kind_id p = Some n) self \<and>
      filter_by_kind int_of kinds self kind = filter_by_kind int_of [] self kind"
    if "int_of kind = Some n" for n
    using that by (auto simp: filter_by_kind_def actives_def intro: filter_cong)
  moreover have "filter_by_kind int_of kinds self kind =
        filter (\<lambda>p. active p = True \<and>
                    (\<exists>k \<in> set kinds. kind_id p = Some (Kind_id k) \<and> Kind_slug k = kind)) self"
    if "int_of kind = None"
    using that by (auto simp: filter_by_kind_def actives_def intro: filter_cong)
  moreover have "\<forall>p \<in> set (filter_by_kind int_of kinds self kind). active p = True"
    using filter_by_kind_active by blast
  ultimately show ?thesis by blast
qed

text \<open>
  A kind with id 7 and slug \<open>3\<close> is added to the example kinds. The identifier \<open>3\<close>
  selects the active pet of kind 3 and not the pet of kind 7; the identifier \<open>ant\<close>, the
  slug of kind 3, selects the same pet.
\<close>

theorem filter_by_kind_dispatch_witness:
  "int_decimal ''3'' = Some 3 \<and> int_decimal ''ant'' = None \<and>
   filter_by_kind int_decimal (\<lparr>Kind_id = 7, Kind_kind = ''Three'', Kind_slug = ''3''\<rparr> # example_kinds)
     [rex, rex\<lparr>Pet_id := 2, kind_id := Some 3\<rparr>, rex\<lparr>Pet_id := 3, kind_id := Some 3, active := False\<rparr>]
     ''3'' = [rex\<lparr>Pet_id := 2, kind_id := Some 3\<rparr>] \<and>
   filter_by_kind int_decimal (\<lparr>Kind_id = 7, Kind_kind = ''Three'', Kind_slug = ''3''\<rparr> # example_kinds)
     [rex, rex\<lparr>Pet_id := 2, kind_id := Some 3\<rparr>, rex\<lparr>Pet_id := 3, kind_id := Some 3, active := False\<rparr>]
     ''ant'' = [rex\<lparr>Pet_id := 2, kind_id := Some 3\<rparr>]"
  using filter_by_kind_dispatch [of int_decimal "''3''"
      "\<lparr>Kind_id = 7, Kind_kind = ''Three'', Kind_slug = ''3''\<rparr> # example_kinds"
      "[rex, rex\<lparr>Pet_id := 2, kind_id := Some 3\<rparr>, rex\<lparr>Pet_id := 3, kind_id := Some 3, active := False\<rparr>]"]
    filter_by_kind_dispatch [of int_decimal "''ant''"
      "\<lparr>Kind_id = 7, Kind_kind = ''Three'', Kind_slug = ''3''\<rparr> # example_kinds"
      "[rex, rex\<lparr>Pet_id := 2, kind_id := Some 3\<rparr>, rex\<lparr>Pet_id := 3, kind_id := Some 3, active := False\<rparr>]"]
  by (simp add: int_decimal_def digit_value_def example_kinds_def rex_def)

subsection \<open>\<open>activate\<close>\<close>

text \<open>
  Claim C6. After one call of \<open>activate\<close> and after two calls in a row, \<open>request_sent\<close>
  is null, \<open>request_key\<close> is empty and \<open>active\<close> is true. The second call leaves every
  field of the instance other than \<open>modified\<close> as the first call left it, stores the
  instance under the pet's key and touches no other row; a second call at the same
  reading of the clock changes nothing at all.
\<close>

theorem activate_idempotent:
  "request_sent (fst (activate t1 (self, db))) = None \<and>
   request_key (fst (activate t1 (self, db))) = [] \<and>
   active (fst (activate t1 (self, db))) = True \<and>
   request_sent (fst (activate t2 (activate t1 (self, db)))) = None \<and>
   request_key (fst (activate t2 (activate t1 (self, db)))) = [] \<and>
   active (fst (activate t2 (activate t1 (self, db)))) = True \<and>
   (fst (activate t2 (activate t1 (self, db))))\<lparr>modified := m\<rparr> =
     (fst (activate t1 (self, db)))\<lparr>modified := m\<rparr> \<and>
   snd (activate t2 (activate t1 (self, db))) (Pet_id self) =
     Some (fst (activate t2 (activate t1 (self, db)))) \<and>
   (\<forall>k. k \<noteq> Pet_id self \<longrightarrow>
      snd (activate t2 (activate t1 (self, db))) k = snd (activate t1 (self, db)) k) \<and>
   activate t1 (activate t1 (self, db)) = activate t1 (self, db)"
  by (simp add: Let_def)

text \<open>
  The example pet, inactive with a request pending and stored under key 1, activated
  with the clock at 1 and again at 2: after either call the three fields are cleared
  and the instance is the example pet in every field other than \<open>modified\<close>.
\<close>

theorem activate_idempotent_witness:
  "request_sent (fst (activate 2 (activate 1
     (rex\<lparr>request_sent := Some 0, request_key := ''k'', active := False\<rparr>,
      [1 \<mapsto> rex\<lparr>request_sent := Some 0, request_key := ''k'', active := False\<rparr>])))) = None \<and>
   request_key (fst (activate 2 (activate 1
     (rex\<lparr>request_sent := Some 0, request_key := ''k'', active := False\<rparr>,
      [1 \<mapsto> rex\<lparr>request_sent := Some 0, request_key := ''k'', active := False\<rparr>])))) = [] \<and>
   active (fst (activate 2 (activate 1
     (rex\<lparr>request_sent := Some 0, request_key := ''k'', active := False\<rparr>,
      [1 \<mapsto> rex\<lparr>request_sent := Some 0, request_key := ''k'', active := False\<rparr>])))) = True \<and>
   (fst (activate 1
     (rex\<lparr>request_sent := Some 0, request_key := ''k'', active := False\<rparr>,
      [1 \<mapsto> rex\<lparr>request_sent := Some 0, request_key := ''k'', active := False\<rparr>])))\<lparr>modified := 0\<rparr> = rex \<and>
   (fst (activate 2 (activate 1
     (rex\<lparr>request_sent := Some 0, request_key := ''k'', active := False\<rparr>,
      [1 \<mapsto> rex\<lparr>request_sent := Some 0, request_key := ''k'', active := False\<rparr>]))))\<lparr>modified := 0\<rparr> = rex"
  using activate_idempotent [of 1 "rex\<lparr>request_sent := Some 0, request_key := ''k'', active := False\<rparr>"
      "[1 \<mapsto> rex\<lparr>request_sent := Some 0, request_key := ''k'', active := False\<rparr>]" 2 0]
  by (simp add: rex_def Let_def)

subsection \<open>\<open>request_action\<close>\<close>

text \<open>
  Claim C4. \<open>request_action\<close> first sets \<open>request_key\<close> to the SHA-1 hex digest of the
  seed followed by the pet's name, 40 characters among \<open>0\<close>..\<open>9\<close> and \<open>a\<close>..\<open>f\<close>. When
  \<open>send_request_action_email\<close>, given the instance with that key, reports failure, the
  instance differs from the old one in \<open>request_key\<close> alone, so \<open>request_sent\<close> is what
  it was, and the table is unchanged: the new key is in memory only. When it reports
  success, \<open>request_sent\<close> is the current time, \<open>modified\<close> is what it was, the instance
  is the row stored under the pet's key and no other row is touched; for a pet whose row
  exists the instance differs from the old one in \<open>request_key\<close> and \<open>request_sent\<close>
  alone.
\<close>

theorem request_action_gated:
  "request_key (fst (request_action seed send now (self, db))) =
     hexdigest (sha1 (utf8_encode (seed @ name self))) \<and>
   length (request_key (fst (request_action seed send now (self, db)))) = 40 \<and>
   set (request_key (fst (request_action seed send now (self, db)))) \<subseteq> set ''0123456789abcdef'' \<and>
   (\<not> send (self\<lparr>request_key := hexdigest (sha1 (utf8_encode (seed @ name self)))\<rparr>) \<longrightarrow>
      request_action seed send now (self, db) =
        (self\<lparr>request_key := hexdigest (sha1 (utf8_encode (seed @ name self)))\<rparr>, db) \<and>
      request_sent (fst (request_action seed send now (self, db))) = request_sent self) \<and>
   (send (self\<lparr>request_key := hexdigest (sha1 (utf8_encode (seed @ name self)))\<rparr>) \<longrightarrow>
      request_sent (fst (request_action seed send now (self, db))) = Some now \<and>
      modified (fst (request_action seed send now (self, db))) = modified self \<and>
      snd (request_action seed send now (self, db)) (Pet_id self) =
        Some (fst (request_action seed send now (self, db))) \<and>
      (\<forall>k. k \<noteq> Pet_id self \<longrightarrow> snd (request_action seed send now (self, db)) k = db k) \<and>
      (db (Pet_id self) \<noteq> None \<longrightarrow>
         fst (request_action seed send now (self, db)) =
           self\<lparr>request_key := hexdigest (sha1 (utf8_encode (seed @ name self))),
                request_sent := Some now\<rparr>))"
  using hexdigest_chars [of "sha1 (utf8_encode (seed @ name self))"]
  by (simp add: Let_def length_hexdigest hexdigits_def)

text \<open>
  The example pet, stored under key 1 with an empty key, and the clock at 9. With the
  seed \<open>aB3xY\<close> the key is the SHA-1 digest of \<open>aB3xYRex\<close>, with the seed \<open>q7Zk2\<close> that
  of \<open>q7Zk2Rex\<close>, a different one. When the mail fails, \<open>request_sent\<close> stays null and
  the table still holds the pet with its empty key. When the collaborator succeeds,
  here on seeing a non-empty key, \<open>request_sent\<close> is 9, \<open>modified\<close> stays 0 and the row
  holds the new key.
\<close>

theorem request_action_gated_witness:
  "request_key (fst (request_action ''aB3xY'' (\<lambda>p. False) 9 (rex, [1 \<mapsto> rex]))) =
     ''4643971531ee1140e0e1a5b1d59d9ae99c977d49'' \<and>
   request_key (fst (request_action ''q7Zk2'' (\<lambda>p. False) 9 (rex, [1 \<mapsto> rex]))) =
     ''0b8f2270963f4310645a76a40a28b2be6ec8ec3f'' \<and>
   request_sent (fst (request_action ''aB3xY'' (\<lambda>p. False) 9 (rex, [1 \<mapsto> rex]))) = None \<and>
   snd (request_action ''aB3xY'' (\<lambda>p. False) 9 (rex, [1 \<mapsto> rex])) = [1 \<mapsto> rex] \<and>
   request_key rex = [] \<and>
   request_action ''aB3xY'' (\<lambda>p. request_key p \<noteq> []) 9 (rex, [1 \<mapsto> rex]) =
     (rex\<lparr>request_key := ''4643971531ee1140e0e1a5b1d59d9ae99c977d49'', request_sent := Some 9\<rparr>,
      [1 \<mapsto> rex\<lparr>request_key := ''4643971531ee1140e0e1a5b1d59d9ae99c977d49'',
                   request_sent := Some 9\<rparr>]) \<and>
   modified (fst (request_action ''aB3xY'' (\<lambda>p. request_key p \<noteq> []) 9 (rex, [1 \<mapsto> rex]))) = 0"
  using request_action_gated [of "''aB3xY''" "\<lambda>p. False" 9 rex "[1 \<mapsto> rex]"]
    request_action_gated [of "''q7Zk2''" "\<lambda>p. False" 9 rex "[1 \<mapsto> rex]"]
    request_action_gated [of "''aB3xY''" "\<lambda>p. request_key p \<noteq> []" 9 rex "[1 \<mapsto> rex]"]
  by (simp add: rex_def Let_def sha1_aB3xYRex sha1_q7Zk2Rex)

subsection \<open>\<open>count_pets\<close>\<close>

text \<open>
  Claim C9, as stated: the rows of \<open>count_pets\<close> are ordered by kind identifier. It
  fails for the id and for the slug: on the example kinds, each with a missing or found
  active pet, the rows come with the ids 3, 2, 1 and the slugs \<open>ant\<close>, \<open>zebra\<close>, \<open>bee\<close>.
\<close>

theorem count_pets_order_counterexample:
  "map (\<lambda>row. (Kind_id (fst row), snd row)) (count_pets example_kinds example_pets [MISSING, FOUND]) =
     [(3, 2), (2, 1), (1, 1)] \<and>
   \<not> sorted (map (\<lambda>row. Kind_id (fst row)) (count_pets example_kinds example_pets [MISSING, FOUND])) \<and>
   \<not> sorted (map (\<lambda>row. Kind_slug (fst row)) (count_pets example_kinds example_pets [MISSING, FOUND]))"
  by (simp add: count_pets_def joined_pets_def example_kinds_def example_pets_def rex_def
      MISSING_def FOUND_def ADOPTED_def)

text \<open>
  Claim C9, amended. The rows of \<open>count_pets\<close> are ordered by the name of the kind (its
  field \<open>kind\<close>). They are exactly the kinds that have at least one active pet with a
  status of the given set, each with the number of such pets, one row for each kind;
  \<open>lost_kinds\<close> is \<open>count_pets\<close> of \<open>MISSING\<close> and \<open>FOUND\<close>, \<open>adoption_kinds\<close> is
  \<open>count_pets\<close> of \<open>FOR_ADOPTION\<close> and \<open>ADOPTED\<close>.
\<close>

theorem count_pets_rows:
  "sorted (map (\<lambda>row. Kind_kind (fst row)) (count_pets self pets status_in)) \<and>
   set (count_pets self pets status_in) =
     {(k, n). k \<in> set self \<and> 0 < n \<and>
        n = length (filter (\<lambda>p. kind_id p = Some (Kind_id k) \<and> status p \<in> set status_in \<and>
                                active p = True) pets)} \<and>
   (distinct self \<longrightarrow> distinct (map fst (count_pets self pets status_in))) \<and>
   lost_kinds self pets = count_pets self pets [MISSING, FOUND] \<and>
   adoption_kinds self pets = count_pets self pets [FOR_ADOPTION, ADOPTED]"
proof -
  have s: "sorted (map (\<lambda>row. Kind_kind (fst row)) (count_pets self pets status_in))"
    unfolding count_pets_def by (rule sorted_sort_key)
  have m: "set (count_pets self pets status_in) =
     {(k, n). k \<in> set self \<and> 0 < n \<and>
        n = length (filter (\<lambda>p. kind_id p = Some (Kind_id k) \<and> status p \<in> set status_in \<and>
                                active p = True) pets)}"
    by (auto simp: count_pets_def joined_pets_def)
  have d: "distinct (map fst (count_pets self pets status_in))" if "distinct self"
  proof -
    have "distinct (map fst (map (\<lambda>k. (k, length (joined_pets pets status_in k)))
          (filter (\<lambda>k. joined_pets pets status_in k \<noteq> []) self)))"
      using that by (simp add: comp_def)
    then show ?thesis
      unfolding count_pets_def by (simp add: distinct_map del: map_map)
  qed
  from s m d show ?thesis by (simp add: lost_kinds_def adoption_kinds_def)
qed

text \<open>
  On the example pets: kind \<open>Ant\<close> has two active lost or found pets (its inactive one
  is not counted), \<open>Zebra\<close> and \<open>bee\<close> one each; only \<open>bee\<close> has a pet on the adoption
  track, and the other kinds have no row there.
\<close>

theorem count_pets_rows_witness:
  "map (\<lambda>row. (Kind_kind (fst row), snd row)) (lost_kinds example_kinds example_pets) =
     [(''Ant'', 2), (''Zebra'', 1), (''bee'', 1)] \<and>
   map (\<lambda>row. (Kind_kind (fst row), snd row)) (adoption_kinds example_kinds example_pets) =
     [(''bee'', 1)]"
  using count_pets_rows [of example_kinds example_pets "[MISSING, FOUND]"]
    count_pets_rows [of example_kinds example_pets "[FOR_ADOPTION, ADOPTED]"]
  by (simp add: count_pets_def joined_pets_def example_kinds_def example_pets_def rex_def
      MISSING_def FOUND_def ADOPTED_def FOR_ADOPTION_def)

end
